theory Spec2Isabelle
  imports Main
begin

section \<open>Query filters of alexandria.core.filters\<close>

text \<open>
  The module \<^verbatim>\<open>alexandria/core/filters.py\<close> holds three filter classes,
  \<^verbatim>\<open>JSONValueFilter\<close>, \<^verbatim>\<open>ActiveGroupFilter\<close> and \<^verbatim>\<open>TagsFilter\<close>, each with
  one method \<^verbatim>\<open>filter(self, qs, value)\<close>. The embedding below follows the three
  methods line by line. What they call and do not define (the JSON decoder, the field
  metadata of the models, the rows of the tag tables, the groups of the requesting
  user) is taken as a parameter.
\<close>

subsection \<open>Python values\<close>

text \<open>
  The values that reach the code: what \<^verbatim>\<open>json.loads\<close> returns (None, bool, int, str,
  list, dict with string keys) and the empty tuple of \<^verbatim>\<open>EMPTY_VALUES\<close>. JSON numbers
  with a fraction or an exponent are left out: in every branch below a float takes the
  path of an int (it is not iterable, not a str, has no \<^verbatim>\<open>get\<close>, is hashable and
  equals no string).
\<close>

datatype pyval =
    PNone
  | PBool bool
  | PInt int
  | PStr string
  | PList "pyval list"
  | PTuple "pyval list"
  | PDict "(string \<times> pyval) list"

text \<open>
  \<^verbatim>\<open>django_filters.constants.EMPTY_VALUES = ([], (), {}, "", None)\<close>. The test
  \<^verbatim>\<open>value in EMPTY_VALUES\<close> compares with \<^verbatim>\<open>==\<close>; against these five values Python's
  equality and HOL's coincide.
\<close>

definition EMPTY_VALUES :: "pyval list" where
  "EMPTY_VALUES = [PList [], PTuple [], PDict [], PStr [], PNone]"

text \<open>
  The exceptions the three methods can end in. The detail of a
  \<^verbatim>\<open>rest_framework.exceptions.ValidationError\<close> keeps the slots of the source's
  message instead of the rendered text:
  \<^item> \<open>Not_json_encoded\<close>: "JSONValueFilter value needs to be json encoded."
  \<^item> \<open>Needs_key_and_value\<close>: 'JSONValueFilter value needs to have a "key" and "value"
    and an optional "lookup" key.'
  \<^item> \<open>Lookup_not_allowed l f vs\<close>: 'Lookup expression "l" not allowed for field "f".
    Valid expressions: ' followed by \<open>vs\<close> joined with ", "
  \<^item> \<open>Group_not_assigned g\<close>: "Active group 'g' is not part of user's assigned groups"
\<close>

datatype detail =
    Not_json_encoded
  | Needs_key_and_value
  | Lookup_not_allowed pyval string "string list"
  | Group_not_assigned pyval

datatype error =
    ValidationError detail
  | TypeError
  | AttributeError
  | KeyError
  | FieldDoesNotExist
  | DoesNotExist
  | RecursionError
  | ValueError

subsection \<open>Querysets\<close>

text \<open>
  A queryset is the model it ranges over and the calls applied to it so far, oldest
  first. \<^verbatim>\<open>qs.annotate(...)\<close> and \<^verbatim>\<open>qs.filter(...)\<close> return a new queryset with one
  more call; the three methods use them in five shapes:
  \<^item> \<open>Annotate_field_val k f\<close>: \<^verbatim>\<open>annotate(field_val=KeyTextTransform(k, f))\<close>
  \<^item> \<open>Filter_field_val l v\<close>: \<^verbatim>\<open>filter(**{f"field_val__{l}": v})\<close>
  \<^item> \<open>Filter_json_key f k l v\<close>: \<^verbatim>\<open>filter(**{f"{f}__{k}__{l}": v})\<close>
  \<^item> \<open>Filter_tags_in ts\<close>: \<^verbatim>\<open>filter(tags__in=ts)\<close>
  \<^item> \<open>Filter_tags_pk k\<close>: \<^verbatim>\<open>filter(tags__pk=k)\<close>
  The calls are recorded as they are made. How the ORM evaluates a call, or whether it
  rejects one when the query is built, is the ORM's and is not modelled.
\<close>

datatype qs_call =
    Annotate_field_val pyval string
  | Filter_field_val pyval pyval
  | Filter_json_key string pyval pyval pyval
  | Filter_tags_in "string list"
  | Filter_tags_pk string

record queryset =
  model :: string
  calls :: "qs_call list"

definition qs_apply :: "qs_call \<Rightarrow> queryset \<Rightarrow> queryset" where
  "qs_apply c qs = qs\<lparr>calls := calls qs @ [c]\<rparr>"

text \<open>
  What the two tag lookups ask of an object, given the primary keys of the tags the
  object carries: \<^verbatim>\<open>tags__in=ts\<close> holds when one of its tags is among \<open>ts\<close>,
  \<^verbatim>\<open>tags__pk=k\<close> when one of its tags has primary key \<open>k\<close>. The JSON lookups are
  the ORM's and are given no meaning here.
\<close>

fun carries :: "string list \<Rightarrow> qs_call \<Rightarrow> bool" where
  "carries own (Filter_tags_in ts) = (\<exists>t \<in> set own. t \<in> set ts)"
| "carries own (Filter_tags_pk k) = (k \<in> set own)"
| "carries own _ = True"

subsection \<open>Model metadata\<close>

text \<open>
  \<^verbatim>\<open>model._meta.get_field(name)\<close> raises \<^verbatim>\<open>FieldDoesNotExist\<close> for an unknown name. A
  field has a \<^verbatim>\<open>related_model\<close> (None unless it is a relation) and the dictionary
  \<^verbatim>\<open>get_lookups()\<close>, of which only the keys are used, in the dictionary's order.
\<close>

record model_field =
  related_model :: "string option"
  get_lookups :: "string list"

type_synonym schema = "string \<Rightarrow> string \<Rightarrow> model_field option"

text \<open>\<^verbatim>\<open>s.split("__")\<close>: the pieces between the occurrences of the separator, found
  from the left; the result is never empty.\<close>

fun split_dunder :: "string \<Rightarrow> string \<Rightarrow> string list" where
  "split_dunder acc [] = [acc]"
| "split_dunder acc (a # b # rest) =
     (if a = CHR ''_'' \<and> b = CHR ''_'' then acc # split_dunder [] rest
      else split_dunder (acc @ [a]) (b # rest))"
| "split_dunder acc [a] = [acc @ [a]]"

text \<open>The loop of \<^verbatim>\<open>_valid_lookups\<close>: \<open>m\<close> is None once a traversed field was no
  relation, and the next \<^verbatim>\<open>model._meta\<close> is then an AttributeError.\<close>

fun traverse :: "schema \<Rightarrow> string option \<Rightarrow> string list \<Rightarrow> error + string option" where
  "traverse sch m [] = Inr m"
| "traverse sch m (f # fs) =
     (case m of
        None \<Rightarrow> Inl AttributeError
      | Some mn \<Rightarrow>
          (case sch mn f of
             None \<Rightarrow> Inl FieldDoesNotExist
           | Some fld \<Rightarrow> traverse sch (related_model fld) fs))"

record json_filter =
  field_name :: string
  lookup_expr :: string

definition valid_lookups :: "schema \<Rightarrow> json_filter \<Rightarrow> queryset \<Rightarrow> error + string list" where
  "valid_lookups sch F qs =
     (let traversals = split_dunder [] (field_name F);
          actual_field = last traversals;
          traversals = butlast traversals
      in case traverse sch (Some (model qs)) traversals of
           Inl e \<Rightarrow> Inl e
         | Inr None \<Rightarrow> Inl AttributeError
         | Inr (Some mn) \<Rightarrow>
             (case sch mn actual_field of
                None \<Rightarrow> Inl FieldDoesNotExist
              | Some fld \<Rightarrow> Inr (get_lookups fld)))"

subsection \<open>JSONValueFilter\<close>

text \<open>\<^verbatim>\<open>needle in haystack\<close> on two strings: the needle occurs as a substring.\<close>

fun str_contains :: "string \<Rightarrow> string \<Rightarrow> bool" where
  "str_contains p [] = (p = [])"
| "str_contains p (c # cs) = (take (length p) (c # cs) = p \<or> str_contains p cs)"

text \<open>\<^verbatim>\<open>name in expr\<close> for a string \<open>name\<close>: a key of a dict, an element of a list or
  tuple, a substring of a str; a TypeError on None, a bool or a number.\<close>

fun py_contains :: "string \<Rightarrow> pyval \<Rightarrow> error + bool" where
  "py_contains name (PDict d) = Inr (name \<in> fst ` set d)"
| "py_contains name (PList xs) = Inr (PStr name \<in> set xs)"
| "py_contains name (PTuple xs) = Inr (PStr name \<in> set xs)"
| "py_contains name (PStr s) = Inr (str_contains name s)"
| "py_contains name _ = Inl TypeError"

text \<open>\<^verbatim>\<open>expr.get(name, default)\<close>: only a dict has the method.\<close>

fun py_get :: "pyval \<Rightarrow> string \<Rightarrow> pyval \<Rightarrow> error + pyval" where
  "py_get (PDict d) name dflt = Inr (case map_of d name of None \<Rightarrow> dflt | Some v \<Rightarrow> v)"
| "py_get _ name dflt = Inl AttributeError"

text \<open>\<^verbatim>\<open>expr[name]\<close> for a string \<open>name\<close>.\<close>

fun py_getitem :: "pyval \<Rightarrow> string \<Rightarrow> error + pyval" where
  "py_getitem (PDict d) name = (case map_of d name of None \<Rightarrow> Inl KeyError | Some v \<Rightarrow> Inr v)"
| "py_getitem _ name = Inl TypeError"

text \<open>A list or a dict cannot be hashed, nor a tuple that holds one.\<close>

fun hashable :: "pyval \<Rightarrow> bool" where
  "hashable (PList xs) = False"
| "hashable (PDict d) = False"
| "hashable (PTuple xs) = list_all hashable xs"
| "hashable _ = True"

text \<open>\<^verbatim>\<open>lookup_expr in valid_lookups\<close>: the dictionary has string keys, so the test
  hashes \<open>l\<close> (a TypeError when it cannot) and holds only for a string among the keys.\<close>

definition in_lookups :: "pyval \<Rightarrow> string list \<Rightarrow> error + bool" where
  "in_lookups l vl =
     (if \<not> hashable l then Inl TypeError
      else Inr (case l of PStr s \<Rightarrow> s \<in> set vl | _ \<Rightarrow> False))"

fun is_str :: "pyval \<Rightarrow> bool" where
  "is_str (PStr s) = True"
| "is_str _ = False"

text \<open>The body of the loop \<^verbatim>\<open>for expr in value\<close> (lines 28 to 56).\<close>

definition filter_expr :: "json_filter \<Rightarrow> string list \<Rightarrow> queryset \<Rightarrow> pyval \<Rightarrow> error + queryset" where
  "filter_expr F vl qs expr =
     (if expr \<in> set EMPTY_VALUES then Inr qs
      else (case py_contains ''key'' expr of
        Inl e \<Rightarrow> Inl e
      | Inr has_key \<Rightarrow>
      (case py_contains ''value'' expr of
        Inl e \<Rightarrow> Inl e
      | Inr has_value \<Rightarrow>
      (if \<not> (has_key \<and> has_value) then Inl (ValidationError Needs_key_and_value)
       else (case py_get expr ''lookup'' (PStr (lookup_expr F)) of
        Inl e \<Rightarrow> Inl e
      | Inr l \<Rightarrow>
      (case in_lookups l vl of
        Inl e \<Rightarrow> Inl e
      | Inr allowed \<Rightarrow>
      (if \<not> allowed then Inl (ValidationError (Lookup_not_allowed l (field_name F) vl))
       else (case py_getitem expr ''value'' of
        Inl e \<Rightarrow> Inl e
      | Inr v \<Rightarrow>
      (case py_getitem expr ''key'' of
        Inl e \<Rightarrow> Inl e
      | Inr k \<Rightarrow>
      (if is_str v
       then Inr (qs_apply (Filter_field_val l v)
                  (qs_apply (Annotate_field_val k (field_name F)) qs))
       else Inr (qs_apply (Filter_json_key (field_name F) k l v) qs)))))))))))"

fun filter_exprs :: "json_filter \<Rightarrow> string list \<Rightarrow> queryset \<Rightarrow> pyval list \<Rightarrow> error + queryset" where
  "filter_exprs F vl qs [] = Inr qs"
| "filter_exprs F vl qs (expr # rest) =
     (case filter_expr F vl qs expr of
        Inl e \<Rightarrow> Inl e
      | Inr qs' \<Rightarrow> filter_exprs F vl qs' rest)"

text \<open>What \<^verbatim>\<open>for expr in value\<close> iterates over: the elements of a list or tuple, the
  one-character strings of a str, the keys of a dict; a TypeError otherwise.\<close>

fun py_iter :: "pyval \<Rightarrow> error + pyval list" where
  "py_iter (PList xs) = Inr xs"
| "py_iter (PTuple xs) = Inr xs"
| "py_iter (PStr s) = Inr (map (\<lambda>c. PStr [c]) s)"
| "py_iter (PDict d) = Inr (map (\<lambda>kv. PStr (fst kv)) d)"
| "py_iter _ = Inl TypeError"

fun is_dict :: "pyval \<Rightarrow> bool" where
  "is_dict (PDict d) = True"
| "is_dict _ = False"

text \<open>Lines 23 to 27: a dict is wrapped in a list ("be a bit more tolerant"), then
  the loop takes what it iterates over.\<close>

definition loop_entries :: "pyval \<Rightarrow> error + pyval list" where
  "loop_entries decoded = py_iter (if is_dict decoded then PList [decoded] else decoded)"

text \<open>The value a filter receives from the form: None or the text of the query
  parameter.\<close>

fun py_of_text :: "string option \<Rightarrow> pyval" where
  "py_of_text None = PNone"
| "py_of_text (Some s) = PStr s"

text \<open>
  What \<^verbatim>\<open>json.loads\<close> does with a text: it returns the decoded value, or raises
  \<^verbatim>\<open>JSONDecodeError\<close> on a text that is not JSON, \<^verbatim>\<open>RecursionError\<close> on
  brackets nested deeper than the interpreter's recursion limit, or a plain
  \<^verbatim>\<open>ValueError\<close> on an integer literal longer than the interpreter's digit limit.
\<close>

datatype loads_result =
    Decoded pyval
  | Raises_JSONDecodeError
  | Raises_RecursionError
  | Raises_ValueError

text \<open>
  \<^verbatim>\<open>JSONValueFilter.filter\<close>. \<open>loads\<close> is \<^verbatim>\<open>json.loads\<close>. The \<^verbatim>\<open>except\<close> of
  line 20 catches \<^verbatim>\<open>json.decoder.JSONDecodeError\<close> and nothing else, so the other two
  exceptions leave the method as they are. \<^verbatim>\<open>json.loads(None)\<close> is a TypeError.
\<close>

definition JSONValueFilter_filter ::
  "(string \<Rightarrow> loads_result) \<Rightarrow> schema \<Rightarrow> json_filter \<Rightarrow> queryset \<Rightarrow> string option
     \<Rightarrow> error + queryset" where
  "JSONValueFilter_filter loads sch F qs v =
     (if py_of_text v \<in> set EMPTY_VALUES then Inr qs
      else (case valid_lookups sch F qs of
        Inl e \<Rightarrow> Inl e
      | Inr vl \<Rightarrow>
      (case v of
        None \<Rightarrow> Inl TypeError
      | Some s \<Rightarrow>
      (case loads s of
        Raises_JSONDecodeError \<Rightarrow> Inl (ValidationError Not_json_encoded)
      | Raises_RecursionError \<Rightarrow> Inl RecursionError
      | Raises_ValueError \<Rightarrow> Inl ValueError
      | Decoded decoded \<Rightarrow>
      (case loop_entries decoded of
        Inl e \<Rightarrow> Inl e
      | Inr exprs \<Rightarrow> filter_exprs F vl qs exprs)))))"

subsection \<open>ActiveGroupFilter\<close>

text \<open>\<^verbatim>\<open>ActiveGroupFilter.filter\<close>; \<open>groups\<close> is
  \<^verbatim>\<open>self.parent.request.user.groups\<close>.\<close>

definition ActiveGroupFilter_filter :: "string list \<Rightarrow> queryset \<Rightarrow> string option \<Rightarrow> error + queryset" where
  "ActiveGroupFilter_filter groups qs v =
     (if py_of_text v \<in> set EMPTY_VALUES then Inr qs
      else if py_of_text v \<notin> PStr ` set groups
      then Inl (ValidationError (Group_not_assigned (py_of_text v)))
      else Inr qs)"

subsection \<open>TagsFilter\<close>

text \<open>
  Modelled from the spec: the models are declared outside this module, and the spec
  names a tag-synonym grouping among the tags. The stored rows the method reads are
  the tags, each with its primary key and the id of its synonym group
  (\<^verbatim>\<open>tag_obj.tag_synonym_group\<close>, None when it has none). The tags of a synonym group
  (\<^verbatim>\<open>group.tags\<close>) are the other side of that link: the tags whose synonym group it
  is. The method runs against the store, so its embedding takes the store and returns
  it with the result.
\<close>

record tag =
  pk :: string
  tag_synonym_group :: "string option"

record database =
  Tag_rows :: "tag list"

definition synonym_group_tags :: "database \<Rightarrow> string \<Rightarrow> string list" where
  "synonym_group_tags db g =
     map pk (filter (\<lambda>t. tag_synonym_group t = Some g) (Tag_rows db))"

text \<open>\<^verbatim>\<open>models.Tag.objects.get(pk=key)\<close>: a SELECT; \<^verbatim>\<open>Tag.DoesNotExist\<close> when no row
  has the key.\<close>

definition Tag_objects_get :: "string \<Rightarrow> database \<Rightarrow> (error + tag) \<times> database" where
  "Tag_objects_get key db =
     (case find (\<lambda>t. pk t = key) (Tag_rows db) of
        None \<Rightarrow> (Inl DoesNotExist, db)
      | Some t \<Rightarrow> (Inr t, db))"

text \<open>\<^verbatim>\<open>group.tags.all()\<close>, evaluated: a SELECT.\<close>

definition tags_all :: "string \<Rightarrow> database \<Rightarrow> string list \<times> database" where
  "tags_all g db = (synonym_group_tags db g, db)"

fun filter_keys :: "string list \<Rightarrow> queryset \<Rightarrow> database \<Rightarrow> (error + queryset) \<times> database" where
  "filter_keys [] qs db = (Inr qs, db)"
| "filter_keys (key # rest) qs db =
     (case Tag_objects_get key db of
        (Inl e, db1) \<Rightarrow> (Inl e, db1)
      | (Inr tag_obj, db1) \<Rightarrow>
          (case tag_synonym_group tag_obj of
             Some g \<Rightarrow>
               (case tags_all g db1 of
                  (synonyms, db2) \<Rightarrow>
                    if synonyms \<noteq> []
                    then filter_keys rest (qs_apply (Filter_tags_in synonyms) qs) db2
                    else filter_keys rest qs db2)
           | None \<Rightarrow> filter_keys rest (qs_apply (Filter_tags_pk key) qs) db1))"

text \<open>The value of a \<^verbatim>\<open>BaseInFilter\<close>: None or the list of the comma-separated
  keys.\<close>

fun py_of_keys :: "string list option \<Rightarrow> pyval" where
  "py_of_keys None = PNone"
| "py_of_keys (Some ks) = PList (map PStr ks)"

definition TagsFilter_filter ::
  "queryset \<Rightarrow> string list option \<Rightarrow> database \<Rightarrow> (error + queryset) \<times> database" where
  "TagsFilter_filter qs v db =
     (if py_of_keys v \<in> set EMPTY_VALUES then (Inr qs, db)
      else case v of
        None \<Rightarrow> (Inl TypeError, db)
      | Some keys \<Rightarrow> filter_keys keys qs db)"

subsection \<open>The properties in the module's terms\<close>

text \<open>A queryset \<open>qs'\<close> restricts \<open>qs\<close>: the same model, and the calls of \<open>qs\<close>
  followed by further ones.\<close>

definition restricts :: "queryset \<Rightarrow> queryset \<Rightarrow> bool" where
  "restricts qs qs' =
     (model qs' = model qs \<and> take (length (calls qs)) (calls qs') = calls qs)"

text \<open>An entry of the JSON value lacks "key" or "value": one of the two membership
  tests of line 30 is False.\<close>

definition lacks_key_or_value :: "pyval \<Rightarrow> bool" where
  "lacks_key_or_value expr =
     (py_contains ''key'' expr = Inr False \<or> py_contains ''value'' expr = Inr False)"

text \<open>The lookup of an entry: its "lookup" member, or the filter's
  \<^verbatim>\<open>lookup_expr\<close>. It is disallowed when the test of line 37 is True.\<close>

definition disallowed_lookup :: "json_filter \<Rightarrow> string list \<Rightarrow> pyval \<Rightarrow> bool" where
  "disallowed_lookup F vl expr =
     (case py_get expr ''lookup'' (PStr (lookup_expr F)) of
        Inl e \<Rightarrow> False
      | Inr l \<Rightarrow> in_lookups l vl = Inr False)"


text \<open>The row of a key, as \<^verbatim>\<open>Tag.objects.get\<close> finds it.\<close>

definition tag_row :: "database \<Rightarrow> string \<Rightarrow> tag option" where
  "tag_row db key = find (\<lambda>t. pk t = key) (Tag_rows db)"

text \<open>
  What one key asks of an object that carries the tags \<open>own\<close>: when the key's tag has
  a synonym group with a non-empty tag set, to carry some tag of that synonym group;
  otherwise to carry the tag with exactly that key.
\<close>

definition key_requirement :: "database \<Rightarrow> string \<Rightarrow> string list \<Rightarrow> bool" where
  "key_requirement db key own =
     (case tag_row db key of
        None \<Rightarrow> False
      | Some t \<Rightarrow>
          (case tag_synonym_group t of
             None \<Rightarrow> key \<in> set own
           | Some g \<Rightarrow>
               if synonym_group_tags db g \<noteq> []
               then list_ex (\<lambda>x. x \<in> set (synonym_group_tags db g)) own
               else key \<in> set own))"

subsection \<open>Sample data\<close>

text \<open>
  Modelled from the spec: the models are declared outside this module. Category,
  Document, File and Tag each have a JSON-valued field \<open>meta\<close>, and the filter sets of
  lines 99 to 142 reach Document from Tag through \<open>documents\<close>. The lookups listed are
  a sample of those the ORM registers.
\<close>

definition json_lookups :: "string list" where
  "json_lookups = [''exact'', ''iexact'', ''contains'', ''icontains'', ''gt'', ''isnull'']"

definition sample_schema :: schema where
  "sample_schema m f =
     (if f = ''meta'' \<and> m \<in> set [''Category'', ''Document'', ''File'', ''Tag'']
      then Some \<lparr>related_model = None, get_lookups = json_lookups\<rparr>
      else if f = ''documents'' \<and> m = ''Tag''
      then Some \<lparr>related_model = Some ''Document'',
                  get_lookups = [''exact'', ''in'', ''isnull'']\<rparr>
      else None)"

definition Document_qs :: queryset where
  "Document_qs = \<lparr>model = ''Document'', calls = []\<rparr>"

definition Tag_qs :: queryset where
  "Tag_qs = \<lparr>model = ''Tag'', calls = []\<rparr>"

text \<open>\<^verbatim>\<open>JSONValueFilter(field_name="meta")\<close> and
  \<^verbatim>\<open>JSONValueFilter(field_name="documents__meta")\<close>, with the default
  \<^verbatim>\<open>lookup_expr\<close> of a filter.\<close>

definition meta_filter :: json_filter where
  "meta_filter = \<lparr>field_name = ''meta'', lookup_expr = ''exact''\<rparr>"

definition with_documents_meta :: json_filter where
  "with_documents_meta = \<lparr>field_name = ''documents__meta'', lookup_expr = ''exact''\<rparr>"

definition title_entry :: pyval where
  "title_entry = PDict [(''key'', PStr ''title''), (''value'', PStr ''Minutes'')]"

definition bogus_entry :: pyval where
  "bogus_entry = PDict [(''key'', PStr ''title''), (''value'', PStr ''Minutes''),
                        (''lookup'', PStr ''bogus'')]"

text \<open>A thousand opening brackets: not JSON, and nested deeper than the recursion
  limit of the interpreter, which the decoder meets first.\<close>

definition deep_text :: string where
  "deep_text = replicate 1000 (CHR ''['')"

text \<open>\<^verbatim>\<open>json.loads\<close> on the texts the examples use; every other text stands for one
  that is not JSON, as \<^verbatim>\<open>{"key"\<close> is.\<close>

definition sample_loads :: "string \<Rightarrow> loads_result" where
  \<open>sample_loads s =
     (if s = ''[1]'' then Decoded (PList [PInt 1])
      else if s = ''{"key": "title", "value": "Minutes"}'' then Decoded title_entry
      else if s = ''[{"key": "title", "value": "Minutes"}]'' then Decoded (PList [title_entry])
      else if s = ''[{"key": "pages", "value": 3, "lookup": "gt"}]''
        then Decoded (PList [PDict [(''key'', PStr ''pages''), (''value'', PInt 3),
                                    (''lookup'', PStr ''gt'')]])
      else if s = ''[{"lookup": "bogus"}]''
        then Decoded (PList [PDict [(''lookup'', PStr ''bogus'')]])
      else if s = ''[{"key": "title", "value": "Minutes", "lookup": "bogus"}]''
        then Decoded (PList [bogus_entry])
      else if s = ''{"key"'' then Raises_JSONDecodeError
      else if s = deep_text then Raises_RecursionError
      else Raises_JSONDecodeError)\<close>

text \<open>Three tags: \<open>invoice\<close> and \<open>bill\<close> share the synonym group \<open>g1\<close>, \<open>draft\<close> has
  none.\<close>

definition sample_db :: database where
  "sample_db =
     \<lparr>Tag_rows =
        [\<lparr>pk = ''invoice'', tag_synonym_group = Some ''g1''\<rparr>,
         \<lparr>pk = ''bill'', tag_synonym_group = Some ''g1''\<rparr>,
         \<lparr>pk = ''draft'', tag_synonym_group = None\<rparr>]\<rparr>"

section \<open>Auxiliary facts\<close>

lemma empty_text: "py_of_text v \<in> set EMPTY_VALUES \<longleftrightarrow> v = None \<or> v = Some []"
  by (cases v) (auto simp: EMPTY_VALUES_def)

lemma empty_keys: "py_of_keys v \<in> set EMPTY_VALUES \<longleftrightarrow> v = None \<or> v = Some []"
  by (cases v) (auto simp: EMPTY_VALUES_def)

text \<open>\<^verbatim>\<open>split\<close> returns at least one piece, so the \<^verbatim>\<open>pop()\<close> of line 62 cannot
  fail.\<close>

lemma split_dunder_nonempty: "split_dunder acc s \<noteq> []"
  by (induction acc s rule: split_dunder.induct) auto

lemma restricts_refl: "restricts qs qs"
  by (simp add: restricts_def)

lemma restricts_trans: "restricts a b \<Longrightarrow> restricts b c \<Longrightarrow> restricts a c"
  unfolding restricts_def
  by (metis append_eq_conv_conj append_take_drop_id take_take)

lemma restricts_apply: "restricts qs (qs_apply c qs)"
  by (simp add: restricts_def qs_apply_def)

lemma filter_expr_restricts: "filter_expr F vl qs x = Inr qs' \<Longrightarrow> restricts qs qs'"
  unfolding filter_expr_def
  by (auto split: if_splits sum.splits intro: restricts_refl restricts_apply
      restricts_trans [OF restricts_apply restricts_apply])

lemma filter_exprs_restricts: "filter_exprs F vl qs xs = Inr qs' \<Longrightarrow> restricts qs qs'"
proof (induction xs arbitrary: qs)
  case Nil
  then show ?case by (simp add: restricts_refl)
next
  case (Cons x xs)
  then show ?case
    by (auto split: sum.splits intro: restricts_trans dest: filter_expr_restricts)
qed

lemma filter_exprs_append:
  "filter_exprs F vl qs (xs @ ys) =
     (case filter_exprs F vl qs xs of Inl e \<Rightarrow> Inl e | Inr q \<Rightarrow> filter_exprs F vl q ys)"
  by (induction xs arbitrary: qs) (auto split: sum.splits)










lemma filter_keys_store: "snd (filter_keys ks qs db) = db"
  by (induction ks arbitrary: qs)
    (auto simp: Tag_objects_get_def tags_all_def split: option.splits)

lemma filter_keys_restricts: "fst (filter_keys ks qs db) = Inr qs' \<Longrightarrow> restricts qs qs'"
proof (induction ks arbitrary: qs)
  case Nil
  then show ?case by (simp add: restricts_refl)
next
  case (Cons k ks)
  then show ?case
    by (auto simp: Tag_objects_get_def tags_all_def split: option.splits if_splits
        intro: restricts_trans [OF restricts_apply])
qed


text \<open>A stored tag is among the tags of its own synonym group, so the test of line 92
  holds whenever that of line 90 does.\<close>

lemma own_synonym_group:
  assumes "tag_row db k = Some t" and "tag_synonym_group t = Some g"
  shows "k \<in> set (synonym_group_tags db g)"
proof -
  from assms(1) have "t \<in> set (Tag_rows db)" and "pk t = k"
    by (auto simp: tag_row_def find_Some_iff in_set_conv_nth)
  with assms(2) show ?thesis
    by (force simp: synonym_group_tags_def)
qed

lemma filter_keys_calls:
  assumes "list_all (\<lambda>k. tag_row db k \<noteq> None) ks"
  shows "\<exists>cs. filter_keys ks qs db = (Inr (qs\<lparr>calls := calls qs @ cs\<rparr>), db) \<and>
           list_all2 (\<lambda>c k. \<forall>own. carries own c = key_requirement db k own) cs ks"
  using assms
proof (induction ks arbitrary: qs)
  case Nil
  then show ?case by simp
next
  case (Cons k ks)
  from Cons.prems obtain t where t: "tag_row db k = Some t"
    and rest: "list_all (\<lambda>k. tag_row db k \<noteq> None) ks"
    by auto
  from t have f: "find (\<lambda>t. pk t = k) (Tag_rows db) = Some t"
    by (simp add: tag_row_def)
  show ?case
  proof (cases "tag_synonym_group t")
    case None
    let ?c = "Filter_tags_pk k"
    from Cons.IH [OF rest, of "qs_apply ?c qs"]
    obtain cs where cs:
      "filter_keys ks (qs_apply ?c qs) db =
         (Inr ((qs_apply ?c qs)\<lparr>calls := calls (qs_apply ?c qs) @ cs\<rparr>), db)"
      "list_all2 (\<lambda>c k. \<forall>own. carries own c = key_requirement db k own) cs ks"
      by blast
    have "filter_keys (k # ks) qs db = (Inr (qs\<lparr>calls := calls qs @ (?c # cs)\<rparr>), db)"
      using cs(1) f None by (simp add: Tag_objects_get_def qs_apply_def)
    moreover have "\<forall>own. carries own ?c = key_requirement db k own"
      using t None by (simp add: key_requirement_def)
    ultimately show ?thesis using cs(2) by blast
  next
    case (Some g)
    let ?c = "Filter_tags_in (synonym_group_tags db g)"
    have ne: "synonym_group_tags db g \<noteq> []"
      using own_synonym_group [OF t Some] by auto
    from Cons.IH [OF rest, of "qs_apply ?c qs"]
    obtain cs where cs:
      "filter_keys ks (qs_apply ?c qs) db =
         (Inr ((qs_apply ?c qs)\<lparr>calls := calls (qs_apply ?c qs) @ cs\<rparr>), db)"
      "list_all2 (\<lambda>c k. \<forall>own. carries own c = key_requirement db k own) cs ks"
      by blast
    have "filter_keys (k # ks) qs db = (Inr (qs\<lparr>calls := calls qs @ (?c # cs)\<rparr>), db)"
      using cs(1) f Some ne by (simp add: Tag_objects_get_def tags_all_def qs_apply_def)
    moreover have "\<forall>own. carries own ?c = key_requirement db k own"
      using t Some ne by (simp add: key_requirement_def list_ex_iff)
    ultimately show ?thesis using cs(2) by blast
  qed
qed

lemma json_decode_error_is_rejected:
  assumes "py_of_text (Some s) \<notin> set EMPTY_VALUES"
    and "loads s = Raises_JSONDecodeError"
    and "valid_lookups sch F qs = Inr vl"
  shows "JSONValueFilter_filter loads sch F qs (Some s) = Inl (ValidationError Not_json_encoded)"
  using assms by (simp add: JSONValueFilter_filter_def)

lemma deep_text_length: "length deep_text = 1000"
  by (simp add: deep_text_def)

lemma deep_text_differs: "length s \<noteq> 1000 \<Longrightarrow> (deep_text = s) = False"
  using deep_text_length by auto

lemma sample_valid_lookups:
  "valid_lookups sample_schema meta_filter Document_qs = Inr json_lookups"
  by (simp add: valid_lookups_def meta_filter_def sample_schema_def Document_qs_def)

lemma sample_valid_lookups_related:
  "valid_lookups sample_schema with_documents_meta Tag_qs = Inr json_lookups"
  by (simp add: valid_lookups_def with_documents_meta_def sample_schema_def Tag_qs_def)

lemma sample_filter_title:
  "filter_expr meta_filter json_lookups Document_qs title_entry =
     Inr \<lparr>model = ''Document'',
          calls = [Annotate_field_val (PStr ''title'') ''meta'',
                   Filter_field_val (PStr ''exact'') (PStr ''Minutes'')]\<rparr>"
  by (simp add: filter_expr_def title_entry_def EMPTY_VALUES_def meta_filter_def
      json_lookups_def in_lookups_def qs_apply_def Document_qs_def)

lemma lacking_entry_is_rejected:
  "x \<notin> set EMPTY_VALUES \<Longrightarrow> lacks_key_or_value x \<Longrightarrow>
     filter_expr F vl qs x = Inl (ValidationError Needs_key_and_value)"
  unfolding filter_expr_def lacks_key_or_value_def
  by (cases x) (auto split: sum.splits)

lemma sample_filter_bogus:
  "filter_expr meta_filter json_lookups Document_qs bogus_entry =
     Inl (ValidationError (Lookup_not_allowed (PStr ''bogus'') ''meta'' json_lookups))"
  by (simp add: filter_expr_def bogus_entry_def EMPTY_VALUES_def meta_filter_def
      json_lookups_def in_lookups_def)

lemma sample_tags_result:
  "TagsFilter_filter Document_qs (Some [''invoice'', ''draft'']) sample_db =
     (Inr \<lparr>model = ''Document'',
           calls = [Filter_tags_in [''invoice'', ''bill''], Filter_tags_pk ''draft'']\<rparr>,
      sample_db)"
  by (simp add: TagsFilter_filter_def EMPTY_VALUES_def Tag_objects_get_def tags_all_def
      synonym_group_tags_def sample_db_def qs_apply_def Document_qs_def)

lemma sample_json_result:
  \<open>JSONValueFilter_filter sample_loads sample_schema meta_filter Document_qs
       (Some ''[{"key": "title", "value": "Minutes"}]'') =
     Inr \<lparr>model = ''Document'',
          calls = [Annotate_field_val (PStr ''title'') ''meta'',
                   Filter_field_val (PStr ''exact'') (PStr ''Minutes'')]\<rparr>\<close>
  using sample_filter_title
  by (simp add: JSONValueFilter_filter_def sample_valid_lookups loop_entries_def
      sample_loads_def EMPTY_VALUES_def)

section \<open>The claims\<close>

text \<open>
  C10. Whenever the value is a member of \<^verbatim>\<open>EMPTY_VALUES\<close> (None or the empty string
  for the two text filters, None or the empty list for the tags filter), each of the
  three methods returns the queryset it was given and raises nothing; the tags filter
  also leaves the store as it was.
\<close>

theorem empty_value_returns_queryset:
  "(py_of_text v \<in> set EMPTY_VALUES \<longrightarrow>
      JSONValueFilter_filter loads sch F qs v = Inr qs \<and>
      ActiveGroupFilter_filter groups qs v = Inr qs) \<and>
   (py_of_keys ks \<in> set EMPTY_VALUES \<longrightarrow> TagsFilter_filter qs ks db = (Inr qs, db))"
  by (simp add: JSONValueFilter_filter_def ActiveGroupFilter_filter_def TagsFilter_filter_def)

theorem empty_value_returns_queryset_witness:
  "py_of_text (Some []) \<in> set EMPTY_VALUES \<and> py_of_text None \<in> set EMPTY_VALUES \<and>
   py_of_keys (Some []) \<in> set EMPTY_VALUES \<and>
   JSONValueFilter_filter sample_loads sample_schema meta_filter Document_qs (Some []) = Inr Document_qs \<and>
   JSONValueFilter_filter sample_loads sample_schema meta_filter Document_qs None = Inr Document_qs \<and>
   ActiveGroupFilter_filter [''staff''] Document_qs (Some []) = Inr Document_qs \<and>
   TagsFilter_filter Document_qs (Some []) sample_db = (Inr Document_qs, sample_db)"
proof -
  have e1: "py_of_text (Some []) \<in> set EMPTY_VALUES" and e2: "py_of_text None \<in> set EMPTY_VALUES"
    and e3: "py_of_keys (Some []) \<in> set EMPTY_VALUES"
    by (simp_all add: EMPTY_VALUES_def)
  show ?thesis
    using e1 e2 e3
      empty_value_returns_queryset [of "Some []" sample_loads sample_schema meta_filter
        Document_qs "[''staff'']" "Some []" sample_db]
      empty_value_returns_queryset [of None sample_loads sample_schema meta_filter
        Document_qs "[''staff'']" "Some []" sample_db]
    by simp
qed

text \<open>
  C6. \<^verbatim>\<open>ActiveGroupFilter.filter\<close> fails exactly when its value is not empty and not
  among the groups of the requesting user, and the failure is the ValidationError that
  names the rejected group; in that case no queryset is returned.
\<close>

theorem unassigned_group_is_rejected:
  "ActiveGroupFilter_filter groups qs v = Inl e \<longleftrightarrow>
     py_of_text v \<notin> set EMPTY_VALUES \<and> py_of_text v \<notin> PStr ` set groups \<and>
     e = ValidationError (Group_not_assigned (py_of_text v))"
  by (auto simp: ActiveGroupFilter_filter_def)

theorem unassigned_group_is_rejected_witness:
  "py_of_text (Some ''board'') \<notin> set EMPTY_VALUES \<and>
   py_of_text (Some ''board'') \<notin> PStr ` set [''staff'', ''audit''] \<and>
   ActiveGroupFilter_filter [''staff'', ''audit''] Document_qs (Some ''board'') =
     Inl (ValidationError (Group_not_assigned (PStr ''board'')))"
  using unassigned_group_is_rejected [of "[''staff'', ''audit'']" Document_qs "Some ''board''"
      "ValidationError (Group_not_assigned (PStr ''board''))"]
  by (simp add: EMPTY_VALUES_def)

text \<open>
  C8. For a value that is not empty and is among the groups of the requesting user,
  \<^verbatim>\<open>ActiveGroupFilter.filter\<close> returns the queryset it was given.
\<close>

theorem assigned_group_keeps_queryset:
  "py_of_text v \<notin> set EMPTY_VALUES \<Longrightarrow> py_of_text v \<in> PStr ` set groups \<Longrightarrow>
     ActiveGroupFilter_filter groups qs v = Inr qs"
  by (simp add: ActiveGroupFilter_filter_def)

theorem assigned_group_keeps_queryset_witness:
  "py_of_text (Some ''audit'') \<notin> set EMPTY_VALUES \<and>
   py_of_text (Some ''audit'') \<in> PStr ` set [''staff'', ''audit''] \<and>
   ActiveGroupFilter_filter [''staff'', ''audit''] Document_qs (Some ''audit'') = Inr Document_qs"
proof -
  have a: "py_of_text (Some ''audit'') \<notin> set EMPTY_VALUES" by (simp add: EMPTY_VALUES_def)
  have b: "py_of_text (Some ''audit'') \<in> PStr ` set [''staff'', ''audit'']" by simp
  show ?thesis using a b assigned_group_keeps_queryset [OF a b, of Document_qs] by simp
qed

text \<open>
  C4. The text of a thousand opening brackets is not empty and is not JSON, yet
  \<^verbatim>\<open>JSONValueFilter.filter\<close> ends in a RecursionError and not in a ValidationError:
  \<^verbatim>\<open>json.loads\<close> meets the recursion limit before the end of the text, and line 20
  catches \<^verbatim>\<open>JSONDecodeError\<close> alone. (Where the decoder raises \<^verbatim>\<open>JSONDecodeError\<close>,
  \<open>json_decode_error_is_rejected\<close> gives the ValidationError, before the loop is
  entered.)
\<close>

theorem deep_nesting_is_a_recursion_error:
  "py_of_text (Some deep_text) \<notin> set EMPTY_VALUES \<and>
   sample_loads deep_text = Raises_RecursionError \<and>
   JSONValueFilter_filter sample_loads sample_schema meta_filter Document_qs (Some deep_text) =
     Inl RecursionError"
proof -
  have ne: "py_of_text (Some deep_text) \<notin> set EMPTY_VALUES"
    using deep_text_length by (auto simp: EMPTY_VALUES_def)
  have l: "sample_loads deep_text = Raises_RecursionError"
    by (simp add: sample_loads_def deep_text_differs)
  from ne l show ?thesis
    by (simp add: JSONValueFilter_filter_def sample_valid_lookups)
qed



text \<open>
  C5. The entry \<open>1\<close> of the JSON text \<open>[1]\<close> is not empty and has neither a "key"
  nor a "value" member, yet \<^verbatim>\<open>JSONValueFilter.filter\<close> ends in a TypeError and not in
  a ValidationError: line 30 evaluates \<^verbatim>\<open>"key" in 1\<close>. (For the entries on which
  the membership test is defined, \<open>lacking_entry_is_rejected\<close> gives the
  ValidationError.)
\<close>

theorem number_entry_is_a_type_error:
  \<open>sample_loads ''[1]'' = Decoded (PList [PInt 1]) \<and>
   PInt 1 \<notin> set EMPTY_VALUES \<and>
   JSONValueFilter_filter sample_loads sample_schema meta_filter Document_qs (Some ''[1]'') =
     Inl TypeError\<close>
  by (simp add: JSONValueFilter_filter_def sample_valid_lookups loop_entries_def
      sample_loads_def EMPTY_VALUES_def filter_expr_def)

text \<open>
  C3, as the code has it. An entry that is a JSON object with both a "key" and a
  "value" member, reached by the loop (the entries before it were accepted), whose
  lookup (its "lookup" member, or the filter's \<^verbatim>\<open>lookup_expr\<close> when it has none) can
  be hashed and is not among the lookups registered on the filter's field, ends
  \<^verbatim>\<open>JSONValueFilter.filter\<close> in the ValidationError that names the lookup, the field
  and the valid expressions; no queryset is returned, so the entry filters nothing.
\<close>

theorem disallowed_lookup_is_rejected:
  assumes "valid_lookups sch F qs = Inr vl"
    and "py_of_text (Some s) \<notin> set EMPTY_VALUES"
    and "loads s = Decoded decoded"
    and "loop_entries decoded = Inr (before @ PDict d # rest)"
    and "filter_exprs F vl qs before = Inr qs1"
    and "''key'' \<in> fst ` set d" and "''value'' \<in> fst ` set d"
    and "py_get (PDict d) ''lookup'' (PStr (lookup_expr F)) = Inr l"
    and "in_lookups l vl = Inr False"
  shows "JSONValueFilter_filter loads sch F qs (Some s) =
           Inl (ValidationError (Lookup_not_allowed l (field_name F) vl))"
proof -
  have ne: "PDict d \<notin> set EMPTY_VALUES"
    using assms(6) by (auto simp: EMPTY_VALUES_def)
  have "filter_expr F vl qs1 (PDict d) =
          Inl (ValidationError (Lookup_not_allowed l (field_name F) vl))"
    using ne assms(6-9) unfolding filter_expr_def by simp
  then have "filter_exprs F vl qs (before @ PDict d # rest) =
          Inl (ValidationError (Lookup_not_allowed l (field_name F) vl))"
    using assms(5) by (simp add: filter_exprs_append)
  then show ?thesis
    using assms(1-4) by (simp add: JSONValueFilter_filter_def)
qed

theorem disallowed_lookup_is_rejected_witness:
  \<open>valid_lookups sample_schema meta_filter Document_qs = Inr json_lookups \<and>
   sample_loads ''[{"key": "title", "value": "Minutes", "lookup": "bogus"}]'' =
     Decoded (PList [bogus_entry]) \<and>
   in_lookups (PStr ''bogus'') json_lookups = Inr False \<and>
   JSONValueFilter_filter sample_loads sample_schema meta_filter Document_qs
       (Some ''[{"key": "title", "value": "Minutes", "lookup": "bogus"}]'') =
     Inl (ValidationError (Lookup_not_allowed (PStr ''bogus'') ''meta'' json_lookups))\<close>
proof -
  let ?s = \<open>''[{"key": "title", "value": "Minutes", "lookup": "bogus"}]''\<close>
  let ?d = "[(''key'', PStr ''title''), (''value'', PStr ''Minutes''), (''lookup'', PStr ''bogus'')]"
  have a: "valid_lookups sample_schema meta_filter Document_qs = Inr json_lookups"
    by (rule sample_valid_lookups)
  have b: "py_of_text (Some ?s) \<notin> set EMPTY_VALUES"
    by (simp add: EMPTY_VALUES_def)
  have c: "sample_loads ?s = Decoded (PList [PDict ?d])"
    by (simp add: sample_loads_def bogus_entry_def)
  have d: "loop_entries (PList [PDict ?d]) = Inr ([] @ PDict ?d # [])"
    by (simp add: loop_entries_def)
  have e: "filter_exprs meta_filter json_lookups Document_qs [] = Inr Document_qs"
    by simp
  have f: "''key'' \<in> fst ` set ?d" and g: "''value'' \<in> fst ` set ?d"
    by simp_all
  have h: "py_get (PDict ?d) ''lookup'' (PStr (lookup_expr meta_filter)) = Inr (PStr ''bogus'')"
    by simp
  have i: "in_lookups (PStr ''bogus'') json_lookups = Inr False"
    by (simp add: in_lookups_def json_lookups_def)
  have "JSONValueFilter_filter sample_loads sample_schema meta_filter Document_qs (Some ?s) =
      Inl (ValidationError (Lookup_not_allowed (PStr ''bogus'') (field_name meta_filter) json_lookups))"
    by (rule disallowed_lookup_is_rejected [where loads = sample_loads and decoded = "PList [PDict ?d]"
          and before = "[]" and rest = "[]" and d = ?d and ?qs1.0 = Document_qs,
          OF a b c d e f g h i])
  then show ?thesis
    using a c i by (simp add: meta_filter_def bogus_entry_def)
qed

text \<open>
  The claim C3 as stated fails for an entry that has a disallowed lookup and no "key"
  or "value": the test of line 30 comes first, and its ValidationError names neither
  the field nor the valid expressions.
\<close>

theorem lookup_checked_after_key_and_value:
  \<open>disallowed_lookup meta_filter json_lookups (PDict [(''lookup'', PStr ''bogus'')]) \<and>
   JSONValueFilter_filter sample_loads sample_schema meta_filter Document_qs
       (Some ''[{"lookup": "bogus"}]'') =
     Inl (ValidationError Needs_key_and_value)\<close>
  by (simp add: JSONValueFilter_filter_def sample_valid_lookups loop_entries_def
      sample_loads_def EMPTY_VALUES_def filter_expr_def disallowed_lookup_def
      in_lookups_def json_lookups_def)

text \<open>
  C7. No method changes the stored rows. \<^verbatim>\<open>TagsFilter.filter\<close>, the one method that
  queries the store, returns it as it was, on success and on failure. Each method that
  succeeds returns the queryset it was given with further calls appended
  (\<^verbatim>\<open>ActiveGroupFilter.filter\<close> with none). \<^verbatim>\<open>JSONValueFilter.filter\<close> and
  \<^verbatim>\<open>ActiveGroupFilter.filter\<close> make no query, and their embeddings do not take the
  store.
\<close>

theorem filters_leave_store_unchanged:
  "snd (TagsFilter_filter qs ks db) = db \<and>
   (fst (TagsFilter_filter qs ks db) = Inr qs' \<longrightarrow> restricts qs qs') \<and>
   (JSONValueFilter_filter loads sch F qs v = Inr qs' \<longrightarrow> restricts qs qs') \<and>
   (ActiveGroupFilter_filter groups qs v = Inr qs' \<longrightarrow> qs' = qs)"
proof -
  have "snd (TagsFilter_filter qs ks db) = db"
    by (simp add: TagsFilter_filter_def filter_keys_store split: option.splits)
  moreover have "fst (TagsFilter_filter qs ks db) = Inr qs' \<longrightarrow> restricts qs qs'"
    by (auto simp: TagsFilter_filter_def restricts_refl split: option.splits if_splits
        dest: filter_keys_restricts)
  moreover have "JSONValueFilter_filter loads sch F qs v = Inr qs' \<longrightarrow> restricts qs qs'"
    by (auto simp: JSONValueFilter_filter_def restricts_refl
        split: option.splits if_splits sum.splits loads_result.splits
        dest: filter_exprs_restricts)
  moreover have "ActiveGroupFilter_filter groups qs v = Inr qs' \<longrightarrow> qs' = qs"
    by (auto simp: ActiveGroupFilter_filter_def split: if_splits)
  ultimately show ?thesis by blast
qed

theorem filters_leave_store_unchanged_witness:
  \<open>snd (TagsFilter_filter Document_qs (Some [''invoice'', ''draft'']) sample_db) = sample_db \<and>
   fst (TagsFilter_filter Document_qs (Some [''invoice'', ''draft'']) sample_db) =
     Inr \<lparr>model = ''Document'',
          calls = [Filter_tags_in [''invoice'', ''bill''], Filter_tags_pk ''draft'']\<rparr> \<and>
   restricts Document_qs
     \<lparr>model = ''Document'',
      calls = [Filter_tags_in [''invoice'', ''bill''], Filter_tags_pk ''draft'']\<rparr> \<and>
   JSONValueFilter_filter sample_loads sample_schema meta_filter Document_qs
       (Some ''[{"key": "title", "value": "Minutes"}]'') =
     Inr \<lparr>model = ''Document'',
          calls = [Annotate_field_val (PStr ''title'') ''meta'',
                   Filter_field_val (PStr ''exact'') (PStr ''Minutes'')]\<rparr> \<and>
   restricts Document_qs
     \<lparr>model = ''Document'',
      calls = [Annotate_field_val (PStr ''title'') ''meta'',
               Filter_field_val (PStr ''exact'') (PStr ''Minutes'')]\<rparr> \<and>
   ActiveGroupFilter_filter [''staff''] Document_qs (Some ''staff'') = Inr Document_qs\<close>
proof -
  let ?r = "\<lparr>model = ''Document'',
      calls = [Filter_tags_in [''invoice'', ''bill''], Filter_tags_pk ''draft'']\<rparr>"
  let ?j = "\<lparr>model = ''Document'',
      calls = [Annotate_field_val (PStr ''title'') ''meta'',
               Filter_field_val (PStr ''exact'') (PStr ''Minutes'')]\<rparr>"
  let ?s = \<open>''[{"key": "title", "value": "Minutes"}]''\<close>
  have a: "fst (TagsFilter_filter Document_qs (Some [''invoice'', ''draft'']) sample_db) = Inr ?r"
    by (simp add: sample_tags_result)
  have b: "ActiveGroupFilter_filter [''staff''] Document_qs (Some ''staff'') = Inr Document_qs"
    by (simp add: ActiveGroupFilter_filter_def EMPTY_VALUES_def)
  have c: "JSONValueFilter_filter sample_loads sample_schema meta_filter Document_qs (Some ?s) =
      Inr ?j"
    by (rule sample_json_result)
  note t = filters_leave_store_unchanged [of Document_qs "Some [''invoice'', ''draft'']" sample_db
      ?r sample_loads sample_schema meta_filter "Some ?s" "[''staff'']"]
  note j = filters_leave_store_unchanged [of Document_qs "Some [''invoice'', ''draft'']" sample_db
      ?j sample_loads sample_schema meta_filter "Some ?s" "[''staff'']"]
  have 1: "snd (TagsFilter_filter Document_qs (Some [''invoice'', ''draft'']) sample_db) = sample_db"
    using t by blast
  have 2: "restricts Document_qs ?r"
    using t a by blast
  have 3: "restricts Document_qs ?j"
    using j c by blast
  from 1 2 3 a b c show ?thesis by blast
qed

text \<open>
  C2. For a list of keys that is not empty and whose keys all name stored tags,
  \<^verbatim>\<open>TagsFilter.filter\<close> returns the queryset it was given with one call appended for
  each key, in the order of the keys, and leaves the store as it was. An object passes
  the call of a key exactly when it meets the requirement of that key: to carry some
  tag of the synonym group when the key's tag has a synonym group with a non-empty
  tag set, and otherwise to carry the tag with exactly that key. The calls of a
  queryset hold together, so the restrictions are conjunctive.
\<close>

theorem tags_filter_restricts_per_key:
  assumes "py_of_keys (Some ks) \<notin> set EMPTY_VALUES"
    and "list_all (\<lambda>k. tag_row db k \<noteq> None) ks"
  shows "\<exists>cs. TagsFilter_filter qs (Some ks) db = (Inr (qs\<lparr>calls := calls qs @ cs\<rparr>), db) \<and>
           list_all2 (\<lambda>c k. \<forall>own. carries own c = key_requirement db k own) cs ks"
  using assms(1) filter_keys_calls [OF assms(2), of qs]
  by (simp add: TagsFilter_filter_def)

theorem tags_filter_restricts_per_key_witness:
  "py_of_keys (Some [''invoice'', ''draft'']) \<notin> set EMPTY_VALUES \<and>
   list_all (\<lambda>k. tag_row sample_db k \<noteq> None) [''invoice'', ''draft''] \<and>
   (\<exists>cs. TagsFilter_filter Document_qs (Some [''invoice'', ''draft'']) sample_db =
          (Inr (Document_qs\<lparr>calls := calls Document_qs @ cs\<rparr>), sample_db) \<and>
        list_all2 (\<lambda>c k. \<forall>own. carries own c = key_requirement sample_db k own) cs
          [''invoice'', ''draft'']) \<and>
   TagsFilter_filter Document_qs (Some [''invoice'', ''draft'']) sample_db =
     (Inr \<lparr>model = ''Document'',
           calls = [Filter_tags_in [''invoice'', ''bill''], Filter_tags_pk ''draft'']\<rparr>,
      sample_db) \<and>
   key_requirement sample_db ''invoice'' [''bill''] \<and>
   \<not> key_requirement sample_db ''draft'' [''bill''] \<and>
   key_requirement sample_db ''draft'' [''bill'', ''draft'']"
proof -
  have a: "py_of_keys (Some [''invoice'', ''draft'']) \<notin> set EMPTY_VALUES"
    by (simp add: EMPTY_VALUES_def)
  have b: "list_all (\<lambda>k. tag_row sample_db k \<noteq> None) [''invoice'', ''draft'']"
    by (simp add: tag_row_def sample_db_def)
  have c: "key_requirement sample_db ''invoice'' [''bill'']"
    by (simp add: key_requirement_def tag_row_def synonym_group_tags_def sample_db_def)
  have d: "\<not> key_requirement sample_db ''draft'' [''bill'']"
    by (simp add: key_requirement_def tag_row_def sample_db_def)
  have e: "key_requirement sample_db ''draft'' [''bill'', ''draft'']"
    by (simp add: key_requirement_def tag_row_def sample_db_def)
  note r = sample_tags_result
  from tags_filter_restricts_per_key [OF a b, of Document_qs] a b c d e r
  show ?thesis by blast
qed




end
